theory Spec2Isabelle
  imports Main
begin

section \<open>Data model (types/chess.ts)\<close>

datatype PieceType = Pawn | Rook | Knight | Bishop | Queen | King

datatype PieceColor = White | Black

datatype GameStatus = Active | Check | Checkmate | Stalemate | Draw

datatype Difficulty = Easy | Medium | Hard | Expert

record Position =
  row :: int
  col :: int

record Piece =
  pieceId :: string
  ptype :: PieceType
  color :: PieceColor
  position :: Position
  hasMoved :: bool

text \<open>
  The optional flags of \<open>ValidMove\<close> and \<open>Move\<close> are only ever tested for truthiness,
  so an absent flag is \<open>False\<close>. The \<open>id\<close> and \<open>timestamp\<close> of a \<open>Move\<close> come from the
  clock and are read by no function of the engine; they are left out, as are the
  settings, identifier and clock fields of \<open>GameState\<close>.
\<close>

record ValidMove =
  to :: Position
  isCapture :: bool
  isEnPassant :: bool
  isCastling :: bool
  promotionOptions :: "PieceType list option"

record Move =
  piece :: Piece
  from_sq :: Position
  to_sq :: Position
  capturedPiece :: "Piece option"
  notation_str :: string
  isCheck :: bool
  isCheckmate :: bool
  wasEnPassant :: bool
  wasCastling :: bool

type_synonym Board = "Piece option list list"

record GameState =
  board :: Board
  currentPlayer :: PieceColor
  status :: GameStatus
  moves :: "Move list"
  capturedWhite :: "Piece list"
  capturedBlack :: "Piece list"

datatype SpecialMove = SpCastling | SpEnPassant | SpPromotion

record MoveValidation =
  isValid :: bool
  reason :: "string option"
  specialMove :: "SpecialMove option"

datatype error = TypeError | NoValidMoves

datatype CastleSide = Kingside | Queenside

definition bindE :: "error + 'a \<Rightarrow> ('a \<Rightarrow> error + 'b) \<Rightarrow> error + 'b" where
  "bindE m f = (case m of Inl e \<Rightarrow> Inl e | Inr x \<Rightarrow> f x)"

definition typeName :: "PieceType \<Rightarrow> string" where
  "typeName t = (case t of Pawn \<Rightarrow> ''pawn'' | Rook \<Rightarrow> ''rook'' | Knight \<Rightarrow> ''knight''
     | Bishop \<Rightarrow> ''bishop'' | Queen \<Rightarrow> ''queen'' | King \<Rightarrow> ''king'')"

definition colorName :: "PieceColor \<Rightarrow> string" where
  "colorName c = (case c of White \<Rightarrow> ''white'' | Black \<Rightarrow> ''black'')"

definition digit :: "int \<Rightarrow> string" where
  "digit n = [char_of (48 + n)]"

definition idx8 :: "int list" where
  "idx8 = [0, 1, 2, 3, 4, 5, 6, 7]"

definition backRank :: "PieceType list" where
  "backRank = [Rook, Knight, Bishop, Queen, King, Bishop, Knight, Rook]"

definition newPiece :: "PieceColor \<Rightarrow> PieceType \<Rightarrow> int \<Rightarrow> int \<Rightarrow> Piece" where
  "newPiece c t r k =
     \<lparr>pieceId = colorName c @ ''-'' @ typeName t @ ''-'' @ digit k, ptype = t, color = c,
      position = \<lparr>row = r, col = k\<rparr>, hasMoved = False\<rparr>"

definition INITIAL_BOARD_STATE :: Board where
  "INITIAL_BOARD_STATE =
     [map (\<lambda>(t, k). Some (newPiece Black t 0 k)) (zip backRank idx8),
      map (\<lambda>k. Some (newPiece Black Pawn 1 k)) idx8,
      replicate 8 None, replicate 8 None, replicate 8 None, replicate 8 None,
      map (\<lambda>k. Some (newPiece White Pawn 6 k)) idx8,
      map (\<lambda>(t, k). Some (newPiece White t 7 k)) (zip backRank idx8)]"

text \<open>The state the game page starts from: white to move, status active, no history.\<close>

definition initialGameState :: GameState where
  "initialGameState =
     \<lparr>board = INITIAL_BOARD_STATE, currentPlayer = White, status = Active, moves = [],
      capturedWhite = [], capturedBlack = []\<rparr>"

definition FILES :: "string list" where
  "FILES = [''a'', ''b'', ''c'', ''d'', ''e'', ''f'', ''g'', ''h'']"

definition RANKS :: "string list" where
  "RANKS = [''8'', ''7'', ''6'', ''5'', ''4'', ''3'', ''2'', ''1'']"

text \<open>An index outside a JavaScript array reads \<open>undefined\<close>, which a template string prints.\<close>

definition jsIndexStr :: "string list \<Rightarrow> int \<Rightarrow> string" where
  "jsIndexStr xs i = (if 0 \<le> i \<and> i < int (length xs) then xs ! nat i else ''undefined'')"

definition positionToAlgebraic :: "Position \<Rightarrow> string" where
  "positionToAlgebraic p = jsIndexStr FILES (col p) @ jsIndexStr RANKS (row p)"

section \<open>Board access (chess-engine.ts)\<close>

definition isValidPosition :: "Position \<Rightarrow> bool" where
  "isValidPosition p \<longleftrightarrow> row p \<ge> 0 \<and> row p < 8 \<and> col p \<ge> 0 \<and> col p < 8"

text \<open>
  \<open>board[r][c]\<close>. The board is the grid of eight rows that \<open>INITIAL_BOARD_STATE\<close> builds;
  a column a row does not have reads \<open>undefined\<close>, which every test of the engine treats as
  \<open>null\<close>. The engine reads rows 0 to 7 only; on a board that lacks one of them the source
  raises a TypeError where this reading gives \<open>None\<close>, so every theorem below is stated
  for the grid of eight rows of eight cells.
\<close>

definition cell :: "Board \<Rightarrow> int \<Rightarrow> int \<Rightarrow> Piece option" where
  "cell b r c =
     (if 0 \<le> r \<and> r < int (length b)
      then (if 0 \<le> c \<and> c < int (length (b ! nat r)) then b ! nat r ! nat c else None)
      else None)"

text \<open>
  \<open>board[r][c] = v\<close>. A row the grid does not have is \<open>undefined\<close> and the assignment
  raises a TypeError. A column at or beyond the end of the row extends the row, the holes
  reading \<open>undefined\<close>; a negative column sets a property that is no element of the row.
  An error result \<open>Inl TypeError\<close> carries no state: what earlier writes of the same call
  left on the board is not part of it.
\<close>

definition setCell :: "Board \<Rightarrow> Position \<Rightarrow> Piece option \<Rightarrow> error + Board" where
  "setCell b p v =
     (if row p < 0 \<or> int (length b) \<le> row p then Inl TypeError
      else if col p < 0 then Inr b
      else (let r = b ! nat (row p); k = nat (col p) in
        Inr (b[nat (row p) :=
          (if k < length r then r[k := v] else r @ replicate (k - length r) None @ [v])])))"

definition setSquare :: "GameState \<Rightarrow> Position \<Rightarrow> Piece option \<Rightarrow> error + GameState" where
  "setSquare s p v = bindE (setCell (board s) p v) (\<lambda>b. Inr (s\<lparr>board := b\<rparr>))"

definition getPieceAt :: "GameState \<Rightarrow> Position \<Rightarrow> Piece option" where
  "getPieceAt s p = (if \<not> isValidPosition p then None else cell (board s) (row p) (col p))"

text \<open>The pieces met by the nested loops over rows 0..7 and columns 0..7, in that order.\<close>

definition scanBoard :: "GameState \<Rightarrow> Piece list" where
  "scanBoard s =
     concat (map (\<lambda>r. concat (map (\<lambda>c. case cell (board s) r c of None \<Rightarrow> [] | Some p \<Rightarrow> [p]) idx8)) idx8)"

definition getAllPieces :: "GameState \<Rightarrow> PieceColor \<Rightarrow> Piece list" where
  "getAllPieces s c = filter (\<lambda>p. color p = c) (scanBoard s)"

definition findKing :: "GameState \<Rightarrow> PieceColor \<Rightarrow> Piece option" where
  "findKing s c = find (\<lambda>p. ptype p = King \<and> color p = c) (scanBoard s)"

section \<open>Move generation\<close>

definition plainMove :: "Position \<Rightarrow> bool \<Rightarrow> ValidMove" where
  "plainMove t cap =
     \<lparr>to = t, isCapture = cap, isEnPassant = False, isCastling = False, promotionOptions = None\<rparr>"

definition stepPos :: "Position \<Rightarrow> Position \<Rightarrow> Position" where
  "stepPos p d = \<lparr>row = row p + row d, col = col p + col d\<rparr>"

text \<open>
  The \<open>while\<close> loop of \<open>getLinearMoves\<close>, from the current square. The method is private and
  its eight call sites pass the eight unit directions; the loop is not entered here for a
  zero direction, where the source would not advance.
\<close>

function linearLoop :: "GameState \<Rightarrow> Piece \<Rightarrow> Position \<Rightarrow> Position \<Rightarrow> ValidMove list" where
  "linearLoop s p d cur =
     (if (row d = 0 \<and> col d = 0) \<or> \<not> isValidPosition cur then []
      else (case getPieceAt s cur of
              None \<Rightarrow> plainMove cur False # linearLoop s p d (stepPos cur d)
            | Some t \<Rightarrow> (if color t \<noteq> color p then [plainMove cur True] else [])))"
  by pat_completeness auto
termination
  by (relation "measure (\<lambda>(s, p, d, cur).
        if row d > 0 then nat (8 - row cur)
        else if row d < 0 then nat (row cur + 1)
        else if col d > 0 then nat (8 - col cur)
        else nat (col cur + 1))")
     (auto simp: isValidPosition_def stepPos_def)

definition getLinearMoves :: "GameState \<Rightarrow> Piece \<Rightarrow> Position \<Rightarrow> ValidMove list" where
  "getLinearMoves s p d = linearLoop s p d (stepPos (position p) d)"

definition getRookMoves :: "GameState \<Rightarrow> Piece \<Rightarrow> ValidMove list" where
  "getRookMoves s rook =
     concat (map (getLinearMoves s rook)
       [\<lparr>row = 0, col = 1\<rparr>, \<lparr>row = 0, col = -1\<rparr>, \<lparr>row = 1, col = 0\<rparr>, \<lparr>row = -1, col = 0\<rparr>])"

definition getBishopMoves :: "GameState \<Rightarrow> Piece \<Rightarrow> ValidMove list" where
  "getBishopMoves s bishop =
     concat (map (getLinearMoves s bishop)
       [\<lparr>row = 1, col = 1\<rparr>, \<lparr>row = 1, col = -1\<rparr>, \<lparr>row = -1, col = 1\<rparr>, \<lparr>row = -1, col = -1\<rparr>])"

definition getQueenMoves :: "GameState \<Rightarrow> Piece \<Rightarrow> ValidMove list" where
  "getQueenMoves s queen = getRookMoves s queen @ getBishopMoves s queen"

text \<open>The body of the loop over the eight knight targets.\<close>

definition knightStep :: "GameState \<Rightarrow> Piece \<Rightarrow> Position \<Rightarrow> ValidMove list" where
  "knightStep s knight targetPos =
     (if isValidPosition targetPos
      then (case getPieceAt s targetPos of
              None \<Rightarrow> [plainMove targetPos False]
            | Some t \<Rightarrow> (if color t \<noteq> color knight then [plainMove targetPos True] else []))
      else [])"

definition getKnightMoves :: "GameState \<Rightarrow> Piece \<Rightarrow> ValidMove list" where
  "getKnightMoves s knight =
     (let r = row (position knight); c = col (position knight) in
      concat (map (knightStep s knight)
        [\<lparr>row = r + 2, col = c + 1\<rparr>, \<lparr>row = r + 2, col = c - 1\<rparr>,
         \<lparr>row = r - 2, col = c + 1\<rparr>, \<lparr>row = r - 2, col = c - 1\<rparr>,
         \<lparr>row = r + 1, col = c + 2\<rparr>, \<lparr>row = r + 1, col = c - 2\<rparr>,
         \<lparr>row = r - 1, col = c + 2\<rparr>, \<lparr>row = r - 1, col = c - 2\<rparr>]))"

definition getRawPawnMoves :: "Piece \<Rightarrow> ValidMove list" where
  "getRawPawnMoves pawn =
     (let r = row (position pawn); c = col (position pawn);
          direction = (if color pawn = White then -1 else 1) in
      concat (map (\<lambda>deltaCol.
          (let targetPos = \<lparr>row = r + direction, col = c + deltaCol\<rparr> in
           if isValidPosition targetPos then [plainMove targetPos True] else []))
        [-1, 1]))"

definition kingDeltas :: "(int \<times> int) list" where
  "kingDeltas = [(-1, -1), (-1, 0), (-1, 1), (0, -1), (0, 1), (1, -1), (1, 0), (1, 1)]"

definition getRawKingMoves :: "Piece \<Rightarrow> ValidMove list" where
  "getRawKingMoves king =
     (let r = row (position king); c = col (position king) in
      concat (map (\<lambda>(deltaRow, deltaCol).
          (let targetPos = \<lparr>row = r + deltaRow, col = c + deltaCol\<rparr> in
           if isValidPosition targetPos then [plainMove targetPos False] else []))
        kingDeltas))"

definition getRawMoves :: "GameState \<Rightarrow> Piece \<Rightarrow> ValidMove list" where
  "getRawMoves s p =
     (case ptype p of
        Pawn \<Rightarrow> getRawPawnMoves p
      | Rook \<Rightarrow> getRookMoves s p
      | Knight \<Rightarrow> getKnightMoves s p
      | Bishop \<Rightarrow> getBishopMoves s p
      | Queen \<Rightarrow> getQueenMoves s p
      | King \<Rightarrow> getRawKingMoves p)"

definition opponent :: "PieceColor \<Rightarrow> PieceColor" where
  "opponent c = (if c = White then Black else White)"

definition isSquareUnderAttack :: "GameState \<Rightarrow> Position \<Rightarrow> PieceColor \<Rightarrow> bool" where
  "isSquareUnderAttack s pos defenderColor =
     list_ex (\<lambda>attacker.
         list_ex (\<lambda>m. row (to m) = row pos \<and> col (to m) = col pos) (getRawMoves s attacker))
       (getAllPieces s (opponent defenderColor))"

definition isInCheck :: "GameState \<Rightarrow> PieceColor \<Rightarrow> bool" where
  "isInCheck s c =
     (case findKing s c of None \<Rightarrow> False | Some k \<Rightarrow> isSquareUnderAttack s (position k) c)"

definition canEnPassant :: "GameState \<Rightarrow> Piece \<Rightarrow> Position \<Rightarrow> bool" where
  "canEnPassant s pawn targetPos =
     (if moves s = [] then False
      else (let lastMove = last (moves s);
                expectedPawnPos = \<lparr>row = row (position pawn), col = col targetPos\<rparr> in
            ptype (piece lastMove) = Pawn \<and>
            \<bar>row (from_sq lastMove) - row (to_sq lastMove)\<bar> = 2 \<and>
            row (to_sq lastMove) = row expectedPawnPos \<and>
            col (to_sq lastMove) = col expectedPawnPos))"

definition canCastle :: "GameState \<Rightarrow> Piece \<Rightarrow> Position \<Rightarrow> CastleSide \<Rightarrow> bool" where
  "canCastle s king targetPos side =
     (let startCol = (if side = Kingside then 5 else 1);
          endCol = (if side = Kingside then 6 else 3) in
      list_all (\<lambda>c.
          getPieceAt s \<lparr>row = row (position king), col = c\<rparr> = None \<and>
          \<not> isSquareUnderAttack s \<lparr>row = row (position king), col = c\<rparr> (color king))
        [startCol..endCol])"

definition promotionChoices :: "PieceType list" where
  "promotionChoices = [Queen, Rook, Bishop, Knight]"

definition pawnDirection :: "Piece \<Rightarrow> int" where
  "pawnDirection pawn = (if color pawn = White then -1 else 1)"

definition pawnPromo :: "Piece \<Rightarrow> PieceType list option" where
  "pawnPromo pawn =
     (if row (position pawn) + pawnDirection pawn = (if color pawn = White then 0 else 7)
      then Some promotionChoices else None)"

text \<open>The forward step and the double step of \<open>getPawnMoves\<close>.\<close>

definition pawnForward :: "GameState \<Rightarrow> Piece \<Rightarrow> ValidMove list" where
  "pawnForward s pawn =
     (let r = row (position pawn); c = col (position pawn);
          direction = pawnDirection pawn;
          startRow = (if color pawn = White then 6 else 1);
          ahead = \<lparr>row = r + direction, col = c\<rparr>;
          ahead2 = \<lparr>row = r + 2 * direction, col = c\<rparr> in
      if isValidPosition ahead \<and> getPieceAt s ahead = None
      then (plainMove ahead False)\<lparr>promotionOptions := pawnPromo pawn\<rparr> #
           (if r = startRow \<and> isValidPosition ahead2 \<and> getPieceAt s ahead2 = None
            then [plainMove ahead2 False] else [])
      else [])"

text \<open>The body of the loop over the two capture columns, en passant included.\<close>

definition pawnCapture :: "GameState \<Rightarrow> Piece \<Rightarrow> int \<Rightarrow> ValidMove list" where
  "pawnCapture s pawn deltaCol =
     (let targetPos = \<lparr>row = row (position pawn) + pawnDirection pawn,
                       col = col (position pawn) + deltaCol\<rparr> in
      if isValidPosition targetPos
      then (case getPieceAt s targetPos of
              None \<Rightarrow> []
            | Some t \<Rightarrow> (if color t \<noteq> color pawn
                         then [(plainMove targetPos True)\<lparr>promotionOptions := pawnPromo pawn\<rparr>]
                         else [])) @
           (if canEnPassant s pawn targetPos
            then [(plainMove targetPos True)\<lparr>isEnPassant := True\<rparr>] else [])
      else [])"

definition getPawnMoves :: "GameState \<Rightarrow> Piece \<Rightarrow> ValidMove list" where
  "getPawnMoves s pawn = pawnForward s pawn @ concat (map (pawnCapture s pawn) [-1, 1])"

text \<open>The body of the loops over the eight neighbours of the king.\<close>

definition kingStep :: "GameState \<Rightarrow> Piece \<Rightarrow> int \<times> int \<Rightarrow> ValidMove list" where
  "kingStep s king d =
     (let targetPos = \<lparr>row = row (position king) + fst d, col = col (position king) + snd d\<rparr> in
      if isValidPosition targetPos
      then (case getPieceAt s targetPos of
              None \<Rightarrow> (if \<not> isSquareUnderAttack s targetPos (color king)
                        then [plainMove targetPos False] else [])
            | Some t \<Rightarrow> (if color t \<noteq> color king \<and>
                            \<not> isSquareUnderAttack s targetPos (color king)
                         then [plainMove targetPos True] else []))
      else [])"

definition castleMove :: "GameState \<Rightarrow> Piece \<Rightarrow> CastleSide \<Rightarrow> ValidMove list" where
  "castleMove s king side =
     (let r = row (position king);
          rookCol = (if side = Kingside then 7 else 0);
          targetCol = (if side = Kingside then 6 else 2) in
      case getPieceAt s \<lparr>row = r, col = rookCol\<rparr> of
        None \<Rightarrow> []
      | Some rook \<Rightarrow>
          (if \<not> hasMoved rook \<and> canCastle s king \<lparr>row = r, col = targetCol\<rparr> side
           then [(plainMove \<lparr>row = r, col = targetCol\<rparr> False)\<lparr>isCastling := True\<rparr>] else []))"

definition castlingMoves :: "GameState \<Rightarrow> Piece \<Rightarrow> ValidMove list" where
  "castlingMoves s king =
     (if \<not> hasMoved king \<and> \<not> isInCheck s (color king)
      then castleMove s king Kingside @ castleMove s king Queenside
      else [])"

definition getKingMoves :: "GameState \<Rightarrow> Piece \<Rightarrow> ValidMove list" where
  "getKingMoves s king = concat (map (kingStep s king) kingDeltas) @ castlingMoves s king"

definition pseudoMoves :: "GameState \<Rightarrow> Piece \<Rightarrow> ValidMove list" where
  "pseudoMoves s p =
     (case ptype p of
        Pawn \<Rightarrow> getPawnMoves s p
      | Rook \<Rightarrow> getRookMoves s p
      | Knight \<Rightarrow> getKnightMoves s p
      | Bishop \<Rightarrow> getBishopMoves s p
      | Queen \<Rightarrow> getQueenMoves s p
      | King \<Rightarrow> getKingMoves s p)"

section \<open>Legality filter\<close>

text \<open>
  \<open>wouldExposeKing\<close> writes the move into the shared board, tests the king's square and
  writes back the piece it was given and the occupant of the destination it saved.
\<close>

definition wouldExposeKing :: "GameState \<Rightarrow> Piece \<Rightarrow> Position \<Rightarrow> error + (bool \<times> GameState)" where
  "wouldExposeKing s p t =
     (let originalPiece = getPieceAt s t in
      case findKing s (color p) of
        None \<Rightarrow> Inr (False, s)
      | Some k \<Rightarrow>
          bindE (setSquare s (position p) None) (\<lambda>s1.
          bindE (setSquare s1 t (Some p)) (\<lambda>s2.
            (let kingPos = (if ptype p = King then t else position k);
                 wouldExpose = isSquareUnderAttack s2 kingPos (color p) in
             bindE (setSquare s2 (position p) (Some p)) (\<lambda>s3.
             bindE (setSquare s3 t originalPiece) (\<lambda>s4.
               Inr (wouldExpose, s4)))))))"

definition wouldNotExposeKing :: "GameState \<Rightarrow> Piece \<Rightarrow> Position \<Rightarrow> error + (bool \<times> GameState)" where
  "wouldNotExposeKing s p t = bindE (wouldExposeKing s p t) (\<lambda>(e, s'). Inr (\<not> e, s'))"

text \<open>\<open>moves.filter(move => this.wouldNotExposeKing(piece, move.to))\<close>, left to right.\<close>

fun filterLegal :: "GameState \<Rightarrow> Piece \<Rightarrow> ValidMove list \<Rightarrow> error + (ValidMove list \<times> GameState)" where
  "filterLegal s p [] = Inr ([], s)"
| "filterLegal s p (m # ms) =
     bindE (wouldNotExposeKing s p (to m)) (\<lambda>(keep, s1).
     bindE (filterLegal s1 p ms) (\<lambda>(rest, s2).
       Inr (if keep then m # rest else rest, s2)))"

definition getValidMoves :: "GameState \<Rightarrow> Piece \<Rightarrow> error + (ValidMove list \<times> GameState)" where
  "getValidMoves s p = filterLegal s p (pseudoMoves s p)"

definition validateMove :: "GameState \<Rightarrow> Piece \<Rightarrow> Position \<Rightarrow> error + (MoveValidation \<times> GameState)" where
  "validateMove s p t =
     (if \<not> isValidPosition t
      then Inr (\<lparr>isValid = False, reason = Some ''Invalid position'', specialMove = None\<rparr>, s)
      else bindE (getValidMoves s p) (\<lambda>(validMoves, s1).
        case find (\<lambda>m. row (to m) = row t \<and> col (to m) = col t) validMoves of
          None \<Rightarrow> Inr (\<lparr>isValid = False, reason = Some ''Illegal move for this piece'',
                         specialMove = None\<rparr>, s1)
        | Some m \<Rightarrow>
            bindE (wouldExposeKing s1 p t) (\<lambda>(exposes, s2).
              if exposes
              then Inr (\<lparr>isValid = False, reason = Some ''Move would expose king to check'',
                         specialMove = None\<rparr>, s2)
              else Inr (\<lparr>isValid = True, reason = None,
                         specialMove =
                           (if promotionOptions m \<noteq> None then Some SpPromotion
                            else if isEnPassant m then Some SpEnPassant
                            else if isCastling m then Some SpCastling
                            else None)\<rparr>, s2))))"

section \<open>Status queries\<close>

fun collectValidMoves :: "GameState \<Rightarrow> Piece list \<Rightarrow> error + (ValidMove list \<times> GameState)" where
  "collectValidMoves s [] = Inr ([], s)"
| "collectValidMoves s (p # ps) =
     bindE (getValidMoves s p) (\<lambda>(ms, s1).
     bindE (collectValidMoves s1 ps) (\<lambda>(rest, s2). Inr (ms @ rest, s2)))"

definition getAllValidMoves :: "GameState \<Rightarrow> PieceColor \<Rightarrow> error + (ValidMove list \<times> GameState)" where
  "getAllValidMoves s c = collectValidMoves s (getAllPieces s c)"

definition isCheckmate_e :: "GameState \<Rightarrow> PieceColor \<Rightarrow> error + (bool \<times> GameState)" where
  "isCheckmate_e s c =
     (if \<not> isInCheck s c then Inr (False, s)
      else bindE (getAllValidMoves s c) (\<lambda>(ms, s1). Inr (length ms = 0, s1)))"

definition isStalemate_e :: "GameState \<Rightarrow> PieceColor \<Rightarrow> error + (bool \<times> GameState)" where
  "isStalemate_e s c =
     (if isInCheck s c then Inr (False, s)
      else bindE (getAllValidMoves s c) (\<lambda>(ms, s1). Inr (length ms = 0, s1)))"

section \<open>Move execution\<close>

text \<open>\<open>piece.type.charAt(0).toUpperCase()\<close>\<close>

definition typeLetter :: "PieceType \<Rightarrow> string" where
  "typeLetter t = (case t of Pawn \<Rightarrow> ''P'' | Rook \<Rightarrow> ''R'' | Knight \<Rightarrow> ''K''
     | Bishop \<Rightarrow> ''B'' | Queen \<Rightarrow> ''Q'' | King \<Rightarrow> ''K'')"

definition generateAlgebraicNotation ::
    "Piece \<Rightarrow> Position \<Rightarrow> Piece option \<Rightarrow> PieceType option \<Rightarrow> string" where
  "generateAlgebraicNotation p t captured promotionPiece =
     (if ptype p = King \<and> \<bar>col t - col (position p)\<bar> = 2
      then (if col t > col (position p) then ''O-O'' else ''O-O-O'')
      else
        (if ptype p \<noteq> Pawn then typeLetter (ptype p) else []) @
        (if captured \<noteq> None
         then (if ptype p = Pawn then take 1 (positionToAlgebraic (position p)) else []) @ ''x''
         else []) @
        positionToAlgebraic t @
        (case promotionPiece of None \<Rightarrow> [] | Some q \<Rightarrow> ''='' @ typeLetter q))"

definition pushCaptured :: "GameState \<Rightarrow> Piece \<Rightarrow> GameState" where
  "pushCaptured s p =
     (if color p = White then s\<lparr>capturedWhite := capturedWhite s @ [p]\<rparr>
      else s\<lparr>capturedBlack := capturedBlack s @ [p]\<rparr>)"

definition handleSpecialMoves :: "GameState \<Rightarrow> Move \<Rightarrow> error + (Move \<times> GameState)" where
  "handleSpecialMoves s mv =
     bindE
       (if ptype (piece mv) = King \<and> \<bar>col (to_sq mv) - col (from_sq mv)\<bar> = 2
        then (let isKingside = col (to_sq mv) > col (from_sq mv);
                  rookFromCol = (if isKingside then 7 else 0);
                  rookToCol = (if isKingside then 5 else 3) in
              bindE
                (case getPieceAt s \<lparr>row = row (from_sq mv), col = rookFromCol\<rparr> of
                   None \<Rightarrow> Inr s
                 | Some rook \<Rightarrow>
                     bindE (setSquare s \<lparr>row = row (from_sq mv), col = rookFromCol\<rparr> None) (\<lambda>s1.
                       setSquare s1 \<lparr>row = row (from_sq mv), col = rookToCol\<rparr>
                         (Some (rook\<lparr>position := \<lparr>row = row (from_sq mv), col = rookToCol\<rparr>,
                                     hasMoved := True\<rparr>))))
                (\<lambda>s2. Inr (mv\<lparr>wasCastling := True\<rparr>, s2)))
        else Inr (mv, s))
       (\<lambda>(mv1, s3).
          if ptype (piece mv1) = Pawn \<and> capturedPiece mv1 = None \<and>
             col (to_sq mv1) \<noteq> col (from_sq mv1)
          then (let capturedPawnRow = row (from_sq mv1) in
                case getPieceAt s3 \<lparr>row = capturedPawnRow, col = col (to_sq mv1)\<rparr> of
                  None \<Rightarrow> Inr (mv1, s3)
                | Some capturedPawn \<Rightarrow>
                    bindE (setSquare s3 \<lparr>row = capturedPawnRow, col = col (to_sq mv1)\<rparr> None) (\<lambda>s4.
                      Inr (mv1\<lparr>capturedPiece := Some capturedPawn, wasEnPassant := True\<rparr>,
                           pushCaptured s4 capturedPawn)))
          else Inr (mv1, s3))"

text \<open>
  \<open>makeMove\<close>, in the two halves its comments name: the writes to the board with the special
  moves and the captured piece, then the check and checkmate test, the history and the
  switch of players.
\<close>

definition updateBoard ::
    "GameState \<Rightarrow> Piece \<Rightarrow> Position \<Rightarrow> PieceType option \<Rightarrow> error + (Move \<times> GameState)" where
  "updateBoard s p t promotionPiece =
     (let captured = getPieceAt s t;
          mv = \<lparr>piece = p, from_sq = position p, to_sq = t, capturedPiece = captured,
                notation_str = generateAlgebraicNotation p t captured promotionPiece,
                isCheck = False, isCheckmate = False, wasEnPassant = False,
                wasCastling = False\<rparr> in
      bindE (setSquare s (position p) None) (\<lambda>s1.
      bindE (setSquare s1 t
               (Some (p\<lparr>position := t, hasMoved := True,
                        ptype := (case promotionPiece of None \<Rightarrow> ptype p | Some q \<Rightarrow> q)\<rparr>))) (\<lambda>s2.
      bindE (handleSpecialMoves s2 mv) (\<lambda>(mv1, s3).
        Inr (mv1, case captured of None \<Rightarrow> s3 | Some cp \<Rightarrow> pushCaptured s3 cp)))))"

definition checkAndRecord :: "Move \<Rightarrow> GameState \<Rightarrow> error + (Move \<times> GameState)" where
  "checkAndRecord mv1 s4 =
     (let opponentColor = opponent (currentPlayer s4);
          inCheck = isInCheck s4 opponentColor in
      bindE
        (if inCheck
         then bindE (isCheckmate_e s4 opponentColor) (\<lambda>(mate, s5).
                Inr (mv1\<lparr>isCheck := True, isCheckmate := mate\<rparr>,
                     s5\<lparr>status := (if mate then Checkmate else Check)\<rparr>))
         else bindE (isStalemate_e s4 opponentColor) (\<lambda>(stale, s5).
                Inr (mv1\<lparr>isCheck := False\<rparr>,
                     if stale then s5\<lparr>status := Stalemate\<rparr> else s5)))
        (\<lambda>(mv2, s6).
           Inr (mv2, s6\<lparr>moves := moves s6 @ [mv2], currentPlayer := opponentColor\<rparr>)))"

definition makeMove ::
    "GameState \<Rightarrow> Piece \<Rightarrow> Position \<Rightarrow> PieceType option \<Rightarrow> error + (Move \<times> GameState)" where
  "makeMove s p t promotionPiece =
     bindE (updateBoard s p t promotionPiece) (\<lambda>(mv1, s4). checkAndRecord mv1 s4)"

declare linearLoop.simps [simp del]

section \<open>The engine read without the simulate-and-restore writes\<close>

text \<open>
  Helper notions for the proofs: a grid of eight rows of eight cells, a write inside it,
  the board on which \<open>wouldExposeKing\<close> tests the king, and the move executor with
  every write inside the grid.
\<close>

definition grid8 :: "Board \<Rightarrow> bool" where
  "grid8 b \<longleftrightarrow> length b = 8 \<and> list_all (\<lambda>r. length r = 8) b"

definition putCell :: "Board \<Rightarrow> Position \<Rightarrow> Piece option \<Rightarrow> Board" where
  "putCell b p v = b[nat (row p) := (b ! nat (row p))[nat (col p) := v]]"

definition simulate :: "GameState \<Rightarrow> Piece \<Rightarrow> Position \<Rightarrow> GameState" where
  "simulate s p t = s\<lparr>board := putCell (putCell (board s) (position p) None) t (Some p)\<rparr>"

definition exposes :: "GameState \<Rightarrow> Piece \<Rightarrow> Position \<Rightarrow> bool" where
  "exposes s p t =
     (case findKing s (color p) of
        None \<Rightarrow> False
      | Some k \<Rightarrow> isSquareUnderAttack (simulate s p t)
                    (if ptype p = King then t else position k) (color p))"

definition onBoard :: "GameState \<Rightarrow> Piece \<Rightarrow> bool" where
  "onBoard s p \<longleftrightarrow> grid8 (board s) \<and> isValidPosition (position p) \<and>
     cell (board s) (row (position p)) (col (position p)) = Some p"

definition legalMoves :: "GameState \<Rightarrow> Piece \<Rightarrow> ValidMove list" where
  "legalMoves s p = filter (\<lambda>m. \<not> exposes s p (to m)) (pseudoMoves s p)"

definition wfBoard :: "Board \<Rightarrow> bool" where
  "wfBoard b \<longleftrightarrow> grid8 b \<and>
     list_all (\<lambda>r. list_all (\<lambda>c.
        case cell b r c of None \<Rightarrow> True | Some p \<Rightarrow> position p = \<lparr>row = r, col = c\<rparr>) idx8) idx8"

definition allLegalMoves :: "GameState \<Rightarrow> PieceColor \<Rightarrow> ValidMove list" where
  "allLegalMoves s c = concat (map (legalMoves s) (getAllPieces s c))"

definition movedPiece :: "Piece \<Rightarrow> Position \<Rightarrow> PieceType option \<Rightarrow> Piece" where
  "movedPiece p t promotionPiece =
     p\<lparr>position := t, hasMoved := True,
       ptype := (case promotionPiece of None \<Rightarrow> ptype p | Some q \<Rightarrow> q)\<rparr>"

definition castleRook :: "GameState \<Rightarrow> Move \<Rightarrow> GameState" where
  "castleRook s mv =
     (let rookFromCol = (if col (to_sq mv) > col (from_sq mv) then 7 else 0);
          rookToCol = (if col (to_sq mv) > col (from_sq mv) then 5 else 3) in
      case getPieceAt s \<lparr>row = row (from_sq mv), col = rookFromCol\<rparr> of
        None \<Rightarrow> s
      | Some rook \<Rightarrow>
          s\<lparr>board := putCell (putCell (board s) \<lparr>row = row (from_sq mv), col = rookFromCol\<rparr> None)
                        \<lparr>row = row (from_sq mv), col = rookToCol\<rparr>
                        (Some (rook\<lparr>position := \<lparr>row = row (from_sq mv), col = rookToCol\<rparr>,
                                    hasMoved := True\<rparr>))\<rparr>)"

definition specialMoves :: "GameState \<Rightarrow> Move \<Rightarrow> Move \<times> GameState" where
  "specialMoves s mv =
     (let castles = (ptype (piece mv) = King \<and> \<bar>col (to_sq mv) - col (from_sq mv)\<bar> = 2);
          mv1 = (if castles then mv\<lparr>wasCastling := True\<rparr> else mv);
          s3 = (if castles then castleRook s mv else s);
          behind = \<lparr>row = row (from_sq mv), col = col (to_sq mv)\<rparr> in
      if ptype (piece mv) = Pawn \<and> capturedPiece mv = None \<and> col (to_sq mv) \<noteq> col (from_sq mv)
      then (case getPieceAt s3 behind of
              None \<Rightarrow> (mv1, s3)
            | Some capturedPawn \<Rightarrow>
                (mv1\<lparr>capturedPiece := Some capturedPawn, wasEnPassant := True\<rparr>,
                 pushCaptured (s3\<lparr>board := putCell (board s3) behind None\<rparr>) capturedPawn))
      else (mv1, s3))"

definition baseMove :: "GameState \<Rightarrow> Piece \<Rightarrow> Position \<Rightarrow> PieceType option \<Rightarrow> Move" where
  "baseMove s p t promotionPiece =
     \<lparr>piece = p, from_sq = position p, to_sq = t, capturedPiece = getPieceAt s t,
      notation_str = generateAlgebraicNotation p t (getPieceAt s t) promotionPiece,
      isCheck = False, isCheckmate = False, wasEnPassant = False, wasCastling = False\<rparr>"

text \<open>The position after the board updates of \<open>makeMove\<close>, before the status is resolved.\<close>

definition movedState :: "GameState \<Rightarrow> Piece \<Rightarrow> Position \<Rightarrow> PieceType option \<Rightarrow> Move \<times> GameState" where
  "movedState s p t promotionPiece =
     (let s2 = s\<lparr>board := putCell (putCell (board s) (position p) None) t
                             (Some (movedPiece p t promotionPiece))\<rparr>;
          (mv1, s3) = specialMoves s2 (baseMove s p t promotionPiece) in
      (mv1, case getPieceAt s t of None \<Rightarrow> s3 | Some cp \<Rightarrow> pushCaptured s3 cp))"

definition resolveStatus :: "Move \<times> GameState \<Rightarrow> Move \<times> GameState" where
  "resolveStatus ms =
     (let mv1 = fst ms; s4 = snd ms;
          opponentColor = opponent (currentPlayer s4);
          inCheck = isInCheck s4 opponentColor;
          noMoves = (allLegalMoves s4 opponentColor = []);
          mv2 = (if inCheck then mv1\<lparr>isCheck := True, isCheckmate := noMoves\<rparr>
                 else mv1\<lparr>isCheck := False\<rparr>);
          s6 = (if inCheck then s4\<lparr>status := (if noMoves then Checkmate else Check)\<rparr>
                else if noMoves then s4\<lparr>status := Stalemate\<rparr> else s4) in
      (mv2, s6\<lparr>moves := moves s6 @ [mv2], currentPlayer := opponentColor\<rparr>))"

definition applyMove :: "GameState \<Rightarrow> Piece \<Rightarrow> Position \<Rightarrow> PieceType option \<Rightarrow> Move \<times> GameState" where
  "applyMove s p t promotionPiece = resolveStatus (movedState s p t promotionPiece)"

section \<open>Refinement lemmas\<close>

lemma grid8_nth: "grid8 b \<Longrightarrow> i < 8 \<Longrightarrow> length (b ! i) = 8"
  by (simp add: grid8_def list_all_length)

lemma grid8_length: "grid8 b \<Longrightarrow> length b = 8"
  by (simp add: grid8_def)

lemma setCell_valid:
  "grid8 b \<Longrightarrow> isValidPosition p \<Longrightarrow> setCell b p v = Inr (putCell b p v)"
  by (auto simp: setCell_def putCell_def isValidPosition_def grid8_def list_all_length Let_def)

lemma nth_putCell:
  "i < length b \<Longrightarrow> putCell b p v ! i = (if i = nat (row p) then (b ! i)[nat (col p) := v] else b ! i)"
  by (simp add: putCell_def nth_list_update)

lemma length_putCell: "length (putCell b p v) = length b"
  by (simp add: putCell_def)

lemma grid8_putCell: "grid8 b \<Longrightarrow> grid8 (putCell b p v)"
  by (simp add: grid8_def list_all_length length_putCell nth_putCell)

lemma cell_putCell:
  assumes "grid8 b" "isValidPosition p"
  shows "cell (putCell b p v) r c = (if r = row p \<and> c = col p then v else cell b r c)"
proof (cases "0 \<le> r \<and> r < 8 \<and> 0 \<le> c \<and> c < 8")
  case False
  then show ?thesis
    using assms grid8_putCell[OF assms(1), of p v]
    by (auto simp: cell_def grid8_length grid8_nth isValidPosition_def)
next
  case True
  then have i: "nat r < 8" and j: "nat c < 8" by auto
  have "cell (putCell b p v) r c = putCell b p v ! nat r ! nat c"
    using True grid8_putCell[OF assms(1), of p v] i
    by (simp add: cell_def grid8_length grid8_nth)
  also have "\<dots> = (if r = row p \<and> c = col p then v else b ! nat r ! nat c)"
    using True assms i j
    by (auto simp: nth_putCell grid8_length grid8_nth isValidPosition_def nth_list_update)
  also have "b ! nat r ! nat c = cell b r c"
    using True assms i by (simp add: cell_def grid8_length grid8_nth)
  finally show ?thesis .
qed

lemma cell_valid: "grid8 b \<Longrightarrow> cell b r c = Some x \<Longrightarrow> 0 \<le> r \<and> r < 8 \<and> 0 \<le> c \<and> c < 8"
  by (auto simp: cell_def grid8_length grid8_nth split: if_splits)

lemma grid8_ext:
  assumes "grid8 a" "grid8 b" "\<And>r c. 0 \<le> r \<Longrightarrow> r < 8 \<Longrightarrow> 0 \<le> c \<Longrightarrow> c < 8 \<Longrightarrow> cell a r c = cell b r c"
  shows "a = b"
proof (rule nth_equalityI)
  show "length a = length b" using assms by (simp add: grid8_length)
next
  fix i assume "i < length a"
  then have i: "i < 8" using assms by (simp add: grid8_length)
  show "a ! i = b ! i"
  proof (rule nth_equalityI)
    show "length (a ! i) = length (b ! i)" using assms i by (simp add: grid8_nth)
  next
    fix j assume "j < length (a ! i)"
    then have j: "j < 8" using assms i by (simp add: grid8_nth)
    have "cell a (int i) (int j) = cell b (int i) (int j)"
      using assms(3)[of "int i" "int j"] i j by simp
    then show "a ! i ! j = b ! i ! j"
      using assms i j by (simp add: cell_def grid8_length grid8_nth)
  qed
qed

lemma putCell_restore:
  assumes g: "grid8 b" and vp: "isValidPosition p" and vt: "isValidPosition t"
    and at: "cell b (row p) (col p) = Some x"
  shows "putCell (putCell (putCell (putCell b p None) t (Some x)) p (Some x)) t (cell b (row t) (col t)) = b"
  by (rule grid8_ext) (auto simp: g vp vt at grid8_putCell cell_putCell)

lemma wouldExposeKing_pure:
  assumes "onBoard s p" "isValidPosition t"
  shows "wouldExposeKing s p t = Inr (exposes s p t, s)"
proof -
  have g: "grid8 (board s)" and vp: "isValidPosition (position p)"
    and at: "cell (board s) (row (position p)) (col (position p)) = Some p"
    using assms(1) by (auto simp: onBoard_def)
  have rest: "putCell (putCell (putCell (putCell (board s) (position p) None) t (Some p))
                (position p) (Some p)) t (cell (board s) (row t) (col t)) = board s"
    by (rule putCell_restore[OF g vp assms(2) at])
  show ?thesis
    using assms(2) g vp
    by (simp add: wouldExposeKing_def exposes_def simulate_def setSquare_def bindE_def
        setCell_valid grid8_putCell getPieceAt_def rest Let_def split: option.split)
qed

lemma concat_mapE: "m \<in> set (concat (map f xs)) \<Longrightarrow> \<exists>x. m \<in> set (f x)"
  by auto

lemma concat_mapP:
  assumes "m \<in> set (concat (map f xs))" "\<And>x. m \<in> set (f x) \<Longrightarrow> P"
  shows P
  using assms by auto

lemma linearLoop_valid: "m \<in> set (linearLoop s p d cur) \<Longrightarrow> isValidPosition (to m)"
proof (induction s p d cur rule: linearLoop.induct)
  case (1 s p d cur)
  from "1.prems" show ?case
    by (subst (asm) linearLoop.simps)
       (auto simp: plainMove_def "1.IH" split: if_splits option.splits)
qed

lemma getLinearMoves_valid: "m \<in> set (getLinearMoves s p d) \<Longrightarrow> isValidPosition (to m)"
  unfolding getLinearMoves_def by (rule linearLoop_valid)

lemma getRookMoves_valid:
  assumes "m \<in> set (getRookMoves s p)" shows "isValidPosition (to m)"
  using assms[unfolded getRookMoves_def] by (rule concat_mapP) (rule getLinearMoves_valid)

lemma getBishopMoves_valid:
  assumes "m \<in> set (getBishopMoves s p)" shows "isValidPosition (to m)"
  using assms[unfolded getBishopMoves_def] by (rule concat_mapP) (rule getLinearMoves_valid)

lemma knightStep_valid: "m \<in> set (knightStep s p x) \<Longrightarrow> isValidPosition (to m)"
  by (auto simp: knightStep_def plainMove_def split: if_splits option.splits)

lemma getKnightMoves_valid:
  assumes "m \<in> set (getKnightMoves s p)" shows "isValidPosition (to m)"
  using assms[unfolded getKnightMoves_def Let_def] by (rule concat_mapP) (rule knightStep_valid)

lemma pawnForward_valid: "m \<in> set (pawnForward s p) \<Longrightarrow> isValidPosition (to m)"
  by (auto simp: pawnForward_def plainMove_def Let_def split: if_splits)

lemma pawnCapture_valid: "m \<in> set (pawnCapture s p d) \<Longrightarrow> isValidPosition (to m)"
  by (auto simp: pawnCapture_def plainMove_def Let_def split: if_splits option.splits)

lemma getPawnMoves_valid:
  assumes "m \<in> set (getPawnMoves s p)" shows "isValidPosition (to m)"
proof -
  from assms have "m \<in> set (pawnForward s p) \<or> m \<in> set (concat (map (pawnCapture s p) [-1, 1]))"
    unfolding getPawnMoves_def set_append by blast
  then show ?thesis
  proof
    assume "m \<in> set (pawnForward s p)"
    then show ?thesis by (rule pawnForward_valid)
  next
    assume "m \<in> set (concat (map (pawnCapture s p) [-1, 1]))"
    then show ?thesis by (rule concat_mapP) (rule pawnCapture_valid)
  qed
qed

lemma getPieceAt_Some_valid: "getPieceAt s q = Some x \<Longrightarrow> isValidPosition q"
  by (auto simp: getPieceAt_def split: if_splits)

lemma kingStep_valid: "m \<in> set (kingStep s p d) \<Longrightarrow> isValidPosition (to m)"
  by (auto simp: kingStep_def plainMove_def Let_def split: if_splits option.splits)

lemma castleMove_valid:
  assumes "m \<in> set (castleMove s p side)" shows "isValidPosition (to m)"
proof (cases "getPieceAt s \<lparr>row = row (position p), col = (if side = Kingside then 7 else 0)\<rparr>")
  case None
  with assms show ?thesis by (simp add: castleMove_def Let_def)
next
  case (Some rook)
  from getPieceAt_Some_valid[OF Some] have "0 \<le> row (position p) \<and> row (position p) < 8"
    by (simp add: isValidPosition_def)
  with assms Some show ?thesis
    by (auto simp: castleMove_def Let_def plainMove_def isValidPosition_def split: if_splits)
qed

lemma getKingMoves_valid:
  assumes "m \<in> set (getKingMoves s p)" shows "isValidPosition (to m)"
proof -
  from assms have "m \<in> set (concat (map (kingStep s p) kingDeltas)) \<or>
      m \<in> set (castleMove s p Kingside) \<or> m \<in> set (castleMove s p Queenside)"
    unfolding getKingMoves_def castlingMoves_def set_append by (auto split: if_splits)
  then show ?thesis
  proof (elim disjE)
    assume "m \<in> set (concat (map (kingStep s p) kingDeltas))"
    then show ?thesis by (rule concat_mapP) (rule kingStep_valid)
  qed (rule castleMove_valid, assumption)+
qed

lemma pseudoMoves_valid:
  assumes "m \<in> set (pseudoMoves s p)" shows "isValidPosition (to m)"
proof (cases "ptype p")
  case Queen
  with assms have "m \<in> set (getRookMoves s p) \<or> m \<in> set (getBishopMoves s p)"
    by (simp add: pseudoMoves_def getQueenMoves_def)
  then show ?thesis using getRookMoves_valid getBishopMoves_valid by blast
qed (use assms in \<open>simp_all add: pseudoMoves_def getPawnMoves_valid getRookMoves_valid
       getKnightMoves_valid getBishopMoves_valid getKingMoves_valid\<close>)

lemma filterLegal_pure:
  assumes "onBoard s p" "\<forall>m \<in> set ms. isValidPosition (to m)"
  shows "filterLegal s p ms = Inr (filter (\<lambda>m. \<not> exposes s p (to m)) ms, s)"
  using assms(2)
  by (induction ms)
     (simp_all add: wouldNotExposeKing_def wouldExposeKing_pure[OF assms(1)] bindE_def)

lemma getValidMoves_pure: "onBoard s p \<Longrightarrow> getValidMoves s p = Inr (legalMoves s p, s)"
  by (simp add: getValidMoves_def legalMoves_def filterLegal_pure pseudoMoves_valid)

lemma idx8_set: "set idx8 = {0..7}"
  by (auto simp: idx8_def)

lemma wfBoard_cell: "wfBoard b \<Longrightarrow> cell b r c = Some p \<Longrightarrow> position p = \<lparr>row = r, col = c\<rparr>"
proof -
  assume w: "wfBoard b" and c: "cell b r c = Some p"
  then have "r \<in> set idx8" "c \<in> set idx8"
    using cell_valid[of b r c p] by (auto simp: wfBoard_def idx8_set)
  with w c show ?thesis
    by (fastforce simp: wfBoard_def list_all_iff)
qed

lemma wfBoardI:
  assumes "grid8 b" "\<And>r c p. cell b r c = Some p \<Longrightarrow> position p = \<lparr>row = r, col = c\<rparr>"
  shows "wfBoard b"
  using assms by (auto simp: wfBoard_def list_all_iff split: option.split)

lemma wfBoard_grid8: "wfBoard b \<Longrightarrow> grid8 b"
  by (simp add: wfBoard_def)

lemma wfBoard_put_None: "wfBoard b \<Longrightarrow> isValidPosition q \<Longrightarrow> wfBoard (putCell b q None)"
  by (rule wfBoardI)
     (auto simp: wfBoard_grid8 grid8_putCell cell_putCell dest: wfBoard_cell split: if_splits)

lemma wfBoard_put_Some:
  "wfBoard b \<Longrightarrow> isValidPosition q \<Longrightarrow> position x = q \<Longrightarrow> wfBoard (putCell b q (Some x))"
  by (rule wfBoardI)
     (auto simp: wfBoard_grid8 grid8_putCell cell_putCell dest: wfBoard_cell split: if_splits)

lemma scanBoard_cell: "p \<in> set (scanBoard s) \<Longrightarrow> \<exists>r c. cell (board s) r c = Some p"
  by (auto simp: scanBoard_def split: option.splits) metis

lemma scanBoard_onBoard: "wfBoard (board s) \<Longrightarrow> p \<in> set (scanBoard s) \<Longrightarrow> onBoard s p"
proof -
  assume w: "wfBoard (board s)" and "p \<in> set (scanBoard s)"
  then obtain r c where c: "cell (board s) r c = Some p"
    using scanBoard_cell by blast
  have pos: "position p = \<lparr>row = r, col = c\<rparr>" by (rule wfBoard_cell[OF w c])
  show ?thesis
    using c cell_valid[OF wfBoard_grid8[OF w] c] w
    by (simp add: onBoard_def pos isValidPosition_def wfBoard_grid8)
qed

lemma collectValidMoves_pure:
  "\<forall>p \<in> set ps. onBoard s p \<Longrightarrow> collectValidMoves s ps = Inr (concat (map (legalMoves s) ps), s)"
  by (induction ps) (simp_all add: getValidMoves_pure bindE_def)

lemma getAllValidMoves_pure:
  "wfBoard (board s) \<Longrightarrow> getAllValidMoves s c = Inr (allLegalMoves s c, s)"
  by (simp add: getAllValidMoves_def allLegalMoves_def collectValidMoves_pure getAllPieces_def
      scanBoard_onBoard)

lemma isCheckmate_pure:
  "wfBoard (board s) \<Longrightarrow> isCheckmate_e s c = Inr (isInCheck s c \<and> allLegalMoves s c = [], s)"
  by (simp add: isCheckmate_e_def getAllValidMoves_pure bindE_def)

lemma isStalemate_pure:
  "wfBoard (board s) \<Longrightarrow> isStalemate_e s c = Inr (\<not> isInCheck s c \<and> allLegalMoves s c = [], s)"
  by (simp add: isStalemate_e_def getAllValidMoves_pure bindE_def)

lemma board_pushCaptured [simp]: "board (pushCaptured s p) = board s"
  by (simp add: pushCaptured_def)

lemma setSquare_valid:
  "grid8 (board s) \<Longrightarrow> isValidPosition q \<Longrightarrow>
   setSquare s q v = Inr (s\<lparr>board := putCell (board s) q v\<rparr>)"
  by (simp add: setSquare_def setCell_valid bindE_def)

lemma rook_cols_valid:
  "isValidPosition q \<Longrightarrow> 0 \<le> k \<Longrightarrow> k < 8 \<Longrightarrow> isValidPosition \<lparr>row = row q, col = k\<rparr>"
  by (simp add: isValidPosition_def)

lemma same_row_valid:
  "isValidPosition q \<Longrightarrow> isValidPosition t \<Longrightarrow> isValidPosition \<lparr>row = row q, col = col t\<rparr>"
  by (simp add: isValidPosition_def)

lemma castleRook_grid8: "grid8 (board s) \<Longrightarrow> grid8 (board (castleRook s mv))"
  by (simp add: castleRook_def Let_def grid8_putCell split: option.split)

lemma castle_writes_pure:
  assumes "grid8 (board s)" "isValidPosition (from_sq mv)"
  shows "(case getPieceAt s \<lparr>row = row (from_sq mv), col = (if col (to_sq mv) > col (from_sq mv) then 7 else 0)\<rparr> of
            None \<Rightarrow> Inr s
          | Some rook \<Rightarrow>
              bindE (setSquare s \<lparr>row = row (from_sq mv), col = (if col (to_sq mv) > col (from_sq mv) then 7 else 0)\<rparr> None) (\<lambda>s1.
                setSquare s1 \<lparr>row = row (from_sq mv), col = (if col (to_sq mv) > col (from_sq mv) then 5 else 3)\<rparr>
                  (Some (rook\<lparr>position := \<lparr>row = row (from_sq mv), col = (if col (to_sq mv) > col (from_sq mv) then 5 else 3)\<rparr>,
                              hasMoved := True\<rparr>))))
         = Inr (castleRook s mv)"
proof (cases "col (to_sq mv) > col (from_sq mv)")
  case True
  with assms show ?thesis
    by (simp add: castleRook_def Let_def setSquare_valid rook_cols_valid grid8_putCell bindE_def
        split: option.split)
next
  case False
  with assms show ?thesis
    by (simp add: castleRook_def Let_def setSquare_valid rook_cols_valid grid8_putCell bindE_def
        split: option.split)
qed

lemma handleSpecialMoves_pure:
  assumes g: "grid8 (board s)" and vf: "isValidPosition (from_sq mv)" and vt: "isValidPosition (to_sq mv)"
  shows "handleSpecialMoves s mv = Inr (specialMoves s mv)"
proof -
  let ?behind = "\<lparr>row = row (from_sq mv), col = col (to_sq mv)\<rparr>"
  have vb: "isValidPosition ?behind" by (rule same_row_valid[OF vf vt])
  have ep: "setSquare s' ?behind None = Inr (s'\<lparr>board := putCell (board s') ?behind None\<rparr>)"
    if "grid8 (board s')" for s'
    by (rule setSquare_valid[OF that vb])
  define c where "c \<longleftrightarrow> ptype (piece mv) = King \<and> \<bar>col (to_sq mv) - col (from_sq mv)\<bar> = 2"
  show ?thesis
  proof (cases c)
    case True
    then show ?thesis
      unfolding handleSpecialMoves_def specialMoves_def Let_def c_def[symmetric]
      by (simp add: castle_writes_pure[OF g vf] bindE_def ep castleRook_grid8[OF g]
          split: option.split)
  next
    case False
    then show ?thesis
      unfolding handleSpecialMoves_def specialMoves_def Let_def c_def[symmetric]
      by (simp add: bindE_def ep[OF g] split: option.split)
  qed
qed


lemma castleRook_wf:
  assumes "wfBoard (board s)" "isValidPosition (from_sq mv)"
  shows "wfBoard (board (castleRook s mv))"
proof (cases "getPieceAt s \<lparr>row = row (from_sq mv), col = (if col (to_sq mv) > col (from_sq mv) then 7 else 0)\<rparr>")
  case None
  with assms(1) show ?thesis by (simp add: castleRook_def Let_def)
next
  case (Some rook)
  have "wfBoard (putCell (putCell (board s) \<lparr>row = row (from_sq mv), col = k\<rparr> None)
           \<lparr>row = row (from_sq mv), col = j\<rparr>
           (Some (rook\<lparr>position := \<lparr>row = row (from_sq mv), col = j\<rparr>, hasMoved := True\<rparr>)))"
    if "0 \<le> k" "k < 8" "0 \<le> j" "j < 8" for k j
    using assms that by (intro wfBoard_put_Some wfBoard_put_None rook_cols_valid) simp_all
  with Some show ?thesis by (simp add: castleRook_def Let_def)
qed

lemma specialMoves_wf:
  assumes "wfBoard (board s)" "isValidPosition (from_sq mv)" "isValidPosition (to_sq mv)"
  shows "wfBoard (board (snd (specialMoves s mv)))"
proof -
  define c where "c \<longleftrightarrow> ptype (piece mv) = King \<and> \<bar>col (to_sq mv) - col (from_sq mv)\<bar> = 2"
  define s3 where "s3 = (if c then castleRook s mv else s)"
  have w3: "wfBoard (board s3)"
    using assms(1) castleRook_wf[OF assms(1,2)] by (simp add: s3_def)
  have "wfBoard (putCell (board s3) \<lparr>row = row (from_sq mv), col = col (to_sq mv)\<rparr> None)"
    by (rule wfBoard_put_None[OF w3 same_row_valid[OF assms(2,3)]])
  with w3 show ?thesis
    unfolding specialMoves_def Let_def c_def[symmetric] s3_def[symmetric]
    by (simp split: option.split)
qed

lemma movedState_wf:
  assumes "wfBoard (board s)" "isValidPosition (position p)" "isValidPosition t"
  shows "wfBoard (board (snd (movedState s p t promotionPiece)))"
proof -
  define s2 where "s2 = s\<lparr>board := putCell (putCell (board s) (position p) None) t
                             (Some (movedPiece p t promotionPiece))\<rparr>"
  have "wfBoard (board s2)"
    using assms by (simp add: s2_def movedPiece_def wfBoard_put_Some wfBoard_put_None)
  from specialMoves_wf[OF this, of "baseMove s p t promotionPiece"] assms(2,3)
  have "wfBoard (board (snd (specialMoves s2 (baseMove s p t promotionPiece))))"
    by (simp add: baseMove_def)
  then show ?thesis
    unfolding movedState_def Let_def s2_def[symmetric]
    by (auto split: prod.split option.split)
qed

lemma updateBoard_pure:
  assumes "grid8 (board s)" "isValidPosition (position p)" "isValidPosition t"
  shows "updateBoard s p t promotionPiece = Inr (movedState s p t promotionPiece)"
proof -
  define s2 where "s2 = s\<lparr>board := putCell (putCell (board s) (position p) None) t
                             (Some (movedPiece p t promotionPiece))\<rparr>"
  define mv where "mv = baseMove s p t promotionPiece"
  have g2: "grid8 (board s2)" using assms(1) by (simp add: s2_def grid8_putCell)
  have sp: "handleSpecialMoves s2 mv = Inr (specialMoves s2 mv)"
    using handleSpecialMoves_pure[OF g2, of mv] assms(2,3) by (simp add: mv_def baseMove_def)
  have "updateBoard s p t promotionPiece =
      bindE (handleSpecialMoves s2 mv) (\<lambda>(mv1, s3).
        Inr (mv1, case getPieceAt s t of None \<Rightarrow> s3 | Some cp \<Rightarrow> pushCaptured s3 cp))"
    using assms
    by (simp add: updateBoard_def Let_def setSquare_valid grid8_putCell bindE_def s2_def mv_def
        baseMove_def movedPiece_def)
  also have "\<dots> = Inr (movedState s p t promotionPiece)"
    unfolding sp movedState_def Let_def s2_def[symmetric] mv_def[symmetric]
    by (simp add: bindE_def split: prod.split)
  finally show ?thesis .
qed

lemma checkAndRecord_pure:
  "wfBoard (board s4) \<Longrightarrow> checkAndRecord mv1 s4 = Inr (resolveStatus (mv1, s4))"
  by (simp add: checkAndRecord_def isCheckmate_pure isStalemate_pure bindE_def resolveStatus_def
      Let_def)

lemma makeMove_pure:
  assumes "wfBoard (board s)" "isValidPosition (position p)" "isValidPosition t"
  shows "makeMove s p t promotionPiece = Inr (applyMove s p t promotionPiece)"
proof -
  obtain mv1 s4 where ms: "movedState s p t promotionPiece = (mv1, s4)"
    by (cases "movedState s p t promotionPiece")
  have w4: "wfBoard (board s4)"
    using movedState_wf[OF assms, of promotionPiece] by (simp add: ms)
  show ?thesis
    by (simp add: makeMove_def updateBoard_pure[OF wfBoard_grid8[OF assms(1)] assms(2,3)] ms
        bindE_def checkAndRecord_pure[OF w4] applyMove_def)
qed

lemma Position_eq_iff: "(p :: Position) = q \<longleftrightarrow> row p = row q \<and> col p = col q"
  by (cases p, cases q) simp

lemma find_no_target:
  "\<forall>m \<in> set ms. to m \<noteq> t \<Longrightarrow> find (\<lambda>m. row (to m) = row t \<and> col (to m) = col t) ms = None"
  by (simp add: find_None_iff Position_eq_iff)

lemma resolveStatus_fields:
  "notation_str (fst (resolveStatus ms)) = notation_str (fst ms)"
  "capturedPiece (fst (resolveStatus ms)) = capturedPiece (fst ms)"
  "wasEnPassant (fst (resolveStatus ms)) = wasEnPassant (fst ms)"
  "wasCastling (fst (resolveStatus ms)) = wasCastling (fst ms)"
  "board (snd (resolveStatus ms)) = board (snd ms)"
  by (simp_all add: resolveStatus_def Let_def)

section \<open>Sample positions\<close>

definition emptyBoard :: Board where
  "emptyBoard = replicate 8 (replicate 8 None)"

definition boardOf :: "Piece list \<Rightarrow> Board" where
  "boardOf ps = foldr (\<lambda>p b. putCell b (position p) (Some p)) ps emptyBoard"

definition setupState :: "Piece list \<Rightarrow> PieceColor \<Rightarrow> GameStatus \<Rightarrow> Move list \<Rightarrow> GameState" where
  "setupState ps c st ms =
     \<lparr>board = boardOf ps, currentPlayer = c, status = st, moves = ms,
      capturedWhite = [], capturedBlack = []\<rparr>"

definition loneKing :: GameState where
  "loneKing = setupState [newPiece White King 7 4] White Active []"

definition whiteRookA1 :: Piece where "whiteRookA1 = newPiece White Rook 7 0"

definition rookEnding :: GameState where
  "rookEnding = setupState [newPiece White King 7 4, whiteRookA1, newPiece Black King 0 4] White Active []"

definition whitePawnE5 :: Piece where
  "whitePawnE5 = (newPiece White Pawn 6 4)\<lparr>position := \<lparr>row = 3, col = 4\<rparr>, hasMoved := True\<rparr>"

definition blackPawnD5 :: Piece where
  "blackPawnD5 = (newPiece Black Pawn 1 3)\<lparr>position := \<lparr>row = 3, col = 3\<rparr>, hasMoved := True\<rparr>"

definition doublePushD5 :: Move where
  "doublePushD5 =
     \<lparr>piece = newPiece Black Pawn 1 3, from_sq = \<lparr>row = 1, col = 3\<rparr>, to_sq = \<lparr>row = 3, col = 3\<rparr>,
      capturedPiece = None, notation_str = ''d5'', isCheck = False, isCheckmate = False,
      wasEnPassant = False, wasCastling = False\<rparr>"

definition enPassantPosition :: GameState where
  "enPassantPosition =
     setupState [newPiece White King 7 4, newPiece Black King 0 4, whitePawnE5, blackPawnD5]
       White Active [doublePushD5]"

definition blackKingE8 :: Piece where
  "blackKingE8 = (newPiece Black King 0 4)\<lparr>hasMoved := True\<rparr>"

definition checkedPosition :: GameState where
  "checkedPosition =
     setupState [(newPiece White King 7 4)\<lparr>position := \<lparr>row = 7, col = 6\<rparr>, hasMoved := True\<rparr>,
                 (newPiece White Rook 7 0)\<lparr>position := \<lparr>row = 7, col = 4\<rparr>, hasMoved := True\<rparr>,
                 blackKingE8]
       Black Check []"

definition whiteKingE1 :: Piece where "whiteKingE1 = newPiece White King 7 4"

definition queensidePosition :: GameState where
  "queensidePosition =
     setupState [whiteKingE1, newPiece White Rook 7 0,
                 (newPiece Black King 0 4)\<lparr>hasMoved := True\<rparr>,
                 (newPiece Black Rook 0 0)\<lparr>position := \<lparr>row = 0, col = 1\<rparr>, hasMoved := True\<rparr>]
       White Active []"

text \<open>The conditions for castling as the specification words them.\<close>

definition castlingBySpec :: "GameState \<Rightarrow> Piece \<Rightarrow> CastleSide \<Rightarrow> bool" where
  "castlingBySpec s k side =
     (let r = row (position k); kc = col (position k);
          rc = (if side = Kingside then 7 else 0);
          tc = (if side = Kingside then 6 else 2) in
      \<not> hasMoved k \<and> \<not> isInCheck s (color k) \<and>
      (case getPieceAt s \<lparr>row = r, col = rc\<rparr> of
         None \<Rightarrow> False
       | Some rk \<Rightarrow> ptype rk = Rook \<and> color rk = color k \<and> \<not> hasMoved rk) \<and>
      list_all (\<lambda>c. getPieceAt s \<lparr>row = r, col = c\<rparr> = None) [min kc rc + 1..max kc rc - 1] \<and>
      list_all (\<lambda>c. \<not> isSquareUnderAttack s \<lparr>row = r, col = c\<rparr> (color k)) [min kc tc..max kc tc])"

definition whiteKingE4 :: Piece where
  "whiteKingE4 = (newPiece White King 7 4)\<lparr>position := \<lparr>row = 4, col = 4\<rparr>, hasMoved := True\<rparr>"

definition checkingPushPosition :: GameState where
  "checkingPushPosition =
     setupState [whiteKingE4, newPiece Black King 0 4, whitePawnE5, blackPawnD5]
       White Check [doublePushD5]"

text \<open>
  The condition for an en-passant capture on \<open>d\<close> as the specification words it: the last move
  of the history is a two-square pawn advance that lands beside the pawn on its rank, and
  \<open>d\<close> is the square that advance passed over.
\<close>

definition enPassantBySpec :: "GameState \<Rightarrow> Piece \<Rightarrow> Position \<Rightarrow> bool" where
  "enPassantBySpec s pawn d =
     (case moves s of
        [] \<Rightarrow> False
      | _ \<Rightarrow> (let lm = last (moves s) in
          ptype (piece lm) = Pawn \<and> \<bar>row (from_sq lm) - row (to_sq lm)\<bar> = 2 \<and>
          row (to_sq lm) = row (position pawn) \<and> \<bar>col (to_sq lm) - col (position pawn)\<bar> = 1 \<and>
          d = \<lparr>row = (row (from_sq lm) + row (to_sq lm)) div 2, col = col (to_sq lm)\<rparr>))"

section \<open>C8: getValidMoves and the game state\<close>

text \<open>
  C8. \<open>getValidMoves\<close> is pure: for every game state (its board the 8x8 grid) and every piece
  of it, that is, every piece standing on its own square of the board, the call returns the
  piece's legal destinations and the game state it leaves is the one it was given: board
  squares, status, current player, move history and captured pieces.
\<close>

theorem getValidMoves_unchanged:
  assumes "grid8 (board s)" "isValidPosition (position p)"
    "cell (board s) (row (position p)) (col (position p)) = Some p"
  shows "getValidMoves s p = Inr (legalMoves s p, s)"
  using assms by (simp add: getValidMoves_pure onBoard_def)

theorem getValidMoves_unchanged_witness:
  "grid8 (board loneKing) \<and> isValidPosition (position (newPiece White King 7 4)) \<and>
   cell (board loneKing) 7 4 = Some (newPiece White King 7 4) \<and>
   getValidMoves loneKing (newPiece White King 7 4) =
     Inr (legalMoves loneKing (newPiece White King 7 4), loneKing)"
proof -
  have h1: "grid8 (board loneKing)" by code_simp
  have h2: "isValidPosition (position (newPiece White King 7 4))" by code_simp
  have h3: "cell (board loneKing) (row (position (newPiece White King 7 4)))
              (col (position (newPiece White King 7 4))) = Some (newPiece White King 7 4)"
    by code_simp
  have h4: "cell (board loneKing) 7 4 = Some (newPiece White King 7 4)" by code_simp
  show ?thesis
    using getValidMoves_unchanged[OF h1 h2 h3] h1 h2 h4 by simp
qed

section \<open>C1: illegal destinations\<close>

text \<open>
  The rejection with "Illegal move for this piece" is what \<open>validateMove\<close> does, for a piece
  on its square and a destination on the board that \<open>getValidMoves\<close> did not return.
\<close>

lemma validateMove_rejects_illegal:
  assumes "grid8 (board s)" "isValidPosition (position p)"
    "cell (board s) (row (position p)) (col (position p)) = Some p"
    "getValidMoves s p = Inr (ms, s')" "isValidPosition t" "\<forall>m \<in> set ms. to m \<noteq> t"
  shows "validateMove s p t =
           Inr (\<lparr>isValid = False, reason = Some ''Illegal move for this piece'',
                 specialMove = None\<rparr>, s)"
proof -
  have "getValidMoves s p = Inr (legalMoves s p, s)"
    using assms(1-3) by (simp add: getValidMoves_pure onBoard_def)
  with assms(4) have "ms = legalMoves s p" "s' = s" by auto
  then show ?thesis
    using assms(4,5) find_no_target[OF assms(6)]
    by (simp add: validateMove_def bindE_def)
qed

text \<open>
  C1. \<open>makeMove\<close> with a destination that is not in the piece's legal-move set should fail
  with a "not legal for this piece" result and leave the position alone. It has no such test:
  with kings on e1 and e8 and a white rook on a1, d5 is not among the rook's valid moves, yet
  \<open>makeMove\<close> returns a move record, empties a1 and puts the rook on d5.
\<close>

theorem makeMove_applies_illegal_move:
  "list_all (\<lambda>m. to m \<noteq> \<lparr>row = 3, col = 3\<rparr>) (legalMoves rookEnding whiteRookA1) \<and>
   getValidMoves rookEnding whiteRookA1 = Inr (legalMoves rookEnding whiteRookA1, rookEnding) \<and>
   makeMove rookEnding whiteRookA1 \<lparr>row = 3, col = 3\<rparr> None =
     Inr (applyMove rookEnding whiteRookA1 \<lparr>row = 3, col = 3\<rparr> None) \<and>
   cell (board rookEnding) 3 3 = None \<and>
   cell (board (snd (applyMove rookEnding whiteRookA1 \<lparr>row = 3, col = 3\<rparr> None))) 3 3 =
     Some (movedPiece whiteRookA1 \<lparr>row = 3, col = 3\<rparr> None) \<and>
   cell (board (snd (applyMove rookEnding whiteRookA1 \<lparr>row = 3, col = 3\<rparr> None))) 7 0 = None"
proof -
  have h1: "grid8 (board rookEnding)" by code_simp
  have h2: "isValidPosition (position whiteRookA1)" by code_simp
  have h3: "cell (board rookEnding) (row (position whiteRookA1)) (col (position whiteRookA1)) = Some whiteRookA1"
    by code_simp
  have h4: "getValidMoves rookEnding whiteRookA1 = Inr (legalMoves rookEnding whiteRookA1, rookEnding)"
    using h1 h2 h3 by (simp add: getValidMoves_pure onBoard_def)
  have w: "wfBoard (board rookEnding)" by code_simp
  have h5: "isValidPosition \<lparr>row = 3, col = 3\<rparr>" by code_simp
  have h6: "list_all (\<lambda>m. to m \<noteq> \<lparr>row = 3, col = 3\<rparr>) (legalMoves rookEnding whiteRookA1)"
    by code_simp
  have b: "cell (board rookEnding) 3 3 = None \<and>
     cell (board (snd (movedState rookEnding whiteRookA1 \<lparr>row = 3, col = 3\<rparr> None))) 3 3 =
       Some (movedPiece whiteRookA1 \<lparr>row = 3, col = 3\<rparr> None) \<and>
     cell (board (snd (movedState rookEnding whiteRookA1 \<lparr>row = 3, col = 3\<rparr> None))) 7 0 = None"
    by code_simp
  show ?thesis
    using makeMove_pure[OF w h2 h5, of None] h4 h6 b
    by (simp add: applyMove_def resolveStatus_fields)
qed

section \<open>C4: castling\<close>

text \<open>
  C4. The loop of \<open>canCastle\<close> tests columns 1 to 3 for attacks on the queen's side, so an
  attacked b-file square refuses castling although the king never passes it. White king e1
  and rook a1 unmoved, black king e8, black rook b8: every condition of the claim holds, b1
  is attacked, and no castling move is among the king's valid moves.
\<close>

theorem queenside_castling_refused_when_b1_attacked:
  "castlingBySpec queensidePosition whiteKingE1 Queenside \<and>
   isSquareUnderAttack queensidePosition \<lparr>row = 7, col = 1\<rparr> White \<and>
   getValidMoves queensidePosition whiteKingE1 =
     Inr (legalMoves queensidePosition whiteKingE1, queensidePosition) \<and>
   \<not> list_ex isCastling (legalMoves queensidePosition whiteKingE1)"
proof -
  have h1: "grid8 (board queensidePosition)" by code_simp
  have h2: "isValidPosition (position whiteKingE1)" by code_simp
  have h3: "cell (board queensidePosition) (row (position whiteKingE1)) (col (position whiteKingE1)) = Some whiteKingE1"
    by code_simp
  have a: "castlingBySpec queensidePosition whiteKingE1 Queenside" by code_simp
  have b: "isSquareUnderAttack queensidePosition \<lparr>row = 7, col = 1\<rparr> White" by code_simp
  have c: "\<not> list_ex isCastling (legalMoves queensidePosition whiteKingE1)" by code_simp
  show ?thesis
    using h1 h2 h3 a b c by (simp add: getValidMoves_pure onBoard_def)
qed

section \<open>C5: en passant\<close>

text \<open>
  C5. An en-passant capture should be among the pawn's valid moves when the preceding move
  was a two-square pawn advance landing beside the pawn. \<open>wouldExposeKing\<close> tries the capture
  with the captured pawn left on the board, so the capture of a pawn that gives check is
  refused. White king e4 and pawn e5, black king e8, and a black pawn that has just advanced
  from d7 to d5 and gives check: the condition of the claim holds for d6 and the pawn has no
  valid move, although \<open>makeMove\<close> carries the capture out, takes the pawn off d5 and leaves
  White out of check.
\<close>

theorem enPassant_refused_against_checking_pawn:
  "enPassantBySpec checkingPushPosition whitePawnE5 \<lparr>row = 2, col = 3\<rparr> \<and>
   getValidMoves checkingPushPosition whitePawnE5 = Inr ([], checkingPushPosition) \<and>
   makeMove checkingPushPosition whitePawnE5 \<lparr>row = 2, col = 3\<rparr> None =
     Inr (applyMove checkingPushPosition whitePawnE5 \<lparr>row = 2, col = 3\<rparr> None) \<and>
   capturedPiece (fst (applyMove checkingPushPosition whitePawnE5 \<lparr>row = 2, col = 3\<rparr> None)) =
     Some blackPawnD5 \<and>
   getPieceAt (snd (applyMove checkingPushPosition whitePawnE5 \<lparr>row = 2, col = 3\<rparr> None))
     \<lparr>row = 3, col = 3\<rparr> = None \<and>
   \<not> isInCheck (snd (applyMove checkingPushPosition whitePawnE5 \<lparr>row = 2, col = 3\<rparr> None)) White"
proof -
  have w: "wfBoard (board checkingPushPosition)" by code_simp
  have h1: "grid8 (board checkingPushPosition)" by code_simp
  have h2: "isValidPosition (position whitePawnE5)" by code_simp
  have h3: "cell (board checkingPushPosition) (row (position whitePawnE5)) (col (position whitePawnE5)) =
      Some whitePawnE5"
    by code_simp
  have h5: "isValidPosition \<lparr>row = 2, col = 3\<rparr>" by code_simp
  have a: "enPassantBySpec checkingPushPosition whitePawnE5 \<lparr>row = 2, col = 3\<rparr>" by code_simp
  have l: "legalMoves checkingPushPosition whitePawnE5 = []" by code_simp
  have b: "capturedPiece (fst (applyMove checkingPushPosition whitePawnE5 \<lparr>row = 2, col = 3\<rparr> None)) =
     Some blackPawnD5 \<and>
   getPieceAt (snd (applyMove checkingPushPosition whitePawnE5 \<lparr>row = 2, col = 3\<rparr> None))
     \<lparr>row = 3, col = 3\<rparr> = None \<and>
   \<not> isInCheck (snd (applyMove checkingPushPosition whitePawnE5 \<lparr>row = 2, col = 3\<rparr> None)) White"
    by code_simp
  show ?thesis
    using makeMove_pure[OF w h2 h5, of None] h1 h2 h3 a l b
    by (simp add: getValidMoves_pure onBoard_def)
qed

section \<open>C7: status after a check is answered\<close>

text \<open>
  C7. \<open>makeMove\<close> writes the status only when the opponent is in check or stalemated, so a
  status of check is never set back to active. White king g1 and rook e1, black king e8 in
  check with status check: after the legal reply Kd8 White is not in check and has legal
  moves, and the status is still check.
\<close>

theorem status_stays_check_after_escape:
  "isInCheck checkedPosition Black \<and>
   list_ex (\<lambda>m. to m = \<lparr>row = 0, col = 3\<rparr>) (legalMoves checkedPosition blackKingE8) \<and>
   makeMove checkedPosition blackKingE8 \<lparr>row = 0, col = 3\<rparr> None =
     Inr (applyMove checkedPosition blackKingE8 \<lparr>row = 0, col = 3\<rparr> None) \<and>
   \<not> isInCheck (snd (applyMove checkedPosition blackKingE8 \<lparr>row = 0, col = 3\<rparr> None)) White \<and>
   allLegalMoves (snd (applyMove checkedPosition blackKingE8 \<lparr>row = 0, col = 3\<rparr> None)) White \<noteq> [] \<and>
   status (snd (applyMove checkedPosition blackKingE8 \<lparr>row = 0, col = 3\<rparr> None)) = Check"
proof -
  have w: "wfBoard (board checkedPosition)" by code_simp
  have h2: "isValidPosition (position blackKingE8)" by code_simp
  have h5: "isValidPosition \<lparr>row = 0, col = 3\<rparr>" by code_simp
  have c: "isInCheck checkedPosition Black" by code_simp
  have l: "list_ex (\<lambda>m. to m = \<lparr>row = 0, col = 3\<rparr>) (legalMoves checkedPosition blackKingE8)"
    by code_simp
  have b: "\<not> isInCheck (snd (applyMove checkedPosition blackKingE8 \<lparr>row = 0, col = 3\<rparr> None)) White \<and>
   allLegalMoves (snd (applyMove checkedPosition blackKingE8 \<lparr>row = 0, col = 3\<rparr> None)) White \<noteq> [] \<and>
   status (snd (applyMove checkedPosition blackKingE8 \<lparr>row = 0, col = 3\<rparr> None)) = Check"
    by code_simp
  show ?thesis
    using makeMove_pure[OF w h2 h5, of None] c l b by simp
qed

section \<open>C10: notation\<close>

text \<open>
  C10. The notation is generated from the occupant of the destination square before the
  special moves are handled, so an en-passant capture gets neither the file prefix nor the
  capture marker. White pawn e5, black pawn d5 that has just advanced two squares: the
  en-passant capture on d6 records the captured pawn and is written "d6".
\<close>

theorem enPassant_notation_has_no_capture_marker:
  "list_ex (\<lambda>m. isEnPassant m \<and> to m = \<lparr>row = 2, col = 3\<rparr>) (legalMoves enPassantPosition whitePawnE5) \<and>
   makeMove enPassantPosition whitePawnE5 \<lparr>row = 2, col = 3\<rparr> None =
     Inr (applyMove enPassantPosition whitePawnE5 \<lparr>row = 2, col = 3\<rparr> None) \<and>
   capturedPiece (fst (applyMove enPassantPosition whitePawnE5 \<lparr>row = 2, col = 3\<rparr> None)) =
     Some blackPawnD5 \<and>
   wasEnPassant (fst (applyMove enPassantPosition whitePawnE5 \<lparr>row = 2, col = 3\<rparr> None)) \<and>
   notation_str (fst (applyMove enPassantPosition whitePawnE5 \<lparr>row = 2, col = 3\<rparr> None)) = ''d6''"
proof -
  have w: "wfBoard (board enPassantPosition)" by code_simp
  have h2: "isValidPosition (position whitePawnE5)" by code_simp
  have h5: "isValidPosition \<lparr>row = 2, col = 3\<rparr>" by code_simp
  have l: "list_ex (\<lambda>m. isEnPassant m \<and> to m = \<lparr>row = 2, col = 3\<rparr>) (legalMoves enPassantPosition whitePawnE5)"
    by code_simp
  have b: "capturedPiece (fst (movedState enPassantPosition whitePawnE5 \<lparr>row = 2, col = 3\<rparr> None)) =
     Some blackPawnD5 \<and>
   wasEnPassant (fst (movedState enPassantPosition whitePawnE5 \<lparr>row = 2, col = 3\<rparr> None)) \<and>
   notation_str (fst (movedState enPassantPosition whitePawnE5 \<lparr>row = 2, col = 3\<rparr> None)) = ''d6''"
    by code_simp
  show ?thesis
    using makeMove_pure[OF w h2 h5, of None] l b
    by (simp add: applyMove_def resolveStatus_fields)
qed

end
